theory Spec2Isabelle
  imports Complex_Main
begin

section \<open>Hotel front office: folio, checkout, night audit, check-in\<close>

text \<open>
  The development embeds the billing and stay routines of the front-office application:
  \<^item> \<^verbatim>\<open>calculateFolioTotal\<close>, \<^verbatim>\<open>confirmCheckout\<close>, \<^verbatim>\<open>handleAddCharge\<close> and
    \<^verbatim>\<open>handleExtendStay\<close> of the in-house page;
  \<^item> \<^verbatim>\<open>archiveInvoice\<close> and \<^verbatim>\<open>archiveGRC\<close> of the document archive service;
  \<^item> \<^verbatim>\<open>runNightAudit\<close> of the night-audit page;
  \<^item> \<^verbatim>\<open>loadData\<close>, \<^verbatim>\<open>processCheckIn\<close> and \<^verbatim>\<open>processWalkIn\<close> of the check-in page;
  \<^item> the tables and CHECK constraints of the schema migrations those routines write to.

  Conventions of the embedding.
  \<^item> A JavaScript number is the rational value of a finite binary64 double. A number
    read from a row or a form (\<^verbatim>\<open>Number(x)\<close>, \<^verbatim>\<open>parseFloat\<close>, a JSON number) is the
    double nearest to the decimal, and each \<open>+\<close>, \<open>-\<close>, \<open>*\<close> and \<open>/\<close> of the routines
    rounds its exact result to the nearest double, ties to the even significand. The
    amounts are \<^verbatim>\<open>decimal(10,2)\<close> columns and the rates \<^verbatim>\<open>decimal(5,2)\<close>, far from the
    double range, so \<^verbatim>\<open>Infinity\<close> and \<^verbatim>\<open>NaN\<close> are not modelled.
  \<^item> An instant (\<^verbatim>\<open>Date.getTime()\<close>, a \<^verbatim>\<open>timestamptz\<close> column) is an \<^typ>\<open>int\<close> of
    milliseconds since the epoch. A calendar date (a \<^verbatim>\<open>date\<close> column, the text
    \<^verbatim>\<open>toISOString().split('T')[0]\<close>) is an \<^typ>\<open>int\<close> of days since the epoch; the order of
    the ISO texts \<^verbatim>\<open>YYYY-MM-DD\<close> that the code compares with \<open><\<close> is the order of these
    day numbers. Every \<^verbatim>\<open>new Date()\<close> of one routine reads the same instant \<open>now\<close>.
  \<^item> A row identifier is a \<^typ>\<open>string\<close>. The columns \<^verbatim>\<open>id\<close>, \<^verbatim>\<open>description\<close>,
    \<^verbatim>\<open>posted_by\<close>, \<^verbatim>\<open>received_by\<close> and \<^verbatim>\<open>created_at\<close> of charges and payments, and the
    rendered \<^verbatim>\<open>document_html\<close>, are written but never read by these routines; the rows of
    the model leave them out.
\<close>

type_synonym uuid = string
type_synonym instant = int
type_synonym day = int

definition ms_per_day :: int where
  "ms_per_day = 1000 * 60 * 60 * 24"

definition iso_date :: "instant \<Rightarrow> day" where
  \<comment> \<open>\<^verbatim>\<open>new Date(t).toISOString().split('T')[0]\<close>\<close>
  "iso_date t = t div ms_per_day"

definition date_instant :: "day \<Rightarrow> instant" where
  \<comment> \<open>\<^verbatim>\<open>new Date('YYYY-MM-DD').getTime()\<close>: midnight UTC of that date\<close>
  "date_instant d = d * ms_per_day"

subsection \<open>Binary64 arithmetic\<close>

function bit_length :: "int \<Rightarrow> int" where
  "bit_length n = (if n \<le> 0 then 0 else 1 + bit_length (n div 2))"
  by pat_completeness auto
termination
  by (relation "measure nat") auto

declare bit_length.simps [simp del]

definition pow2 :: "int \<Rightarrow> rat" where
  "pow2 e = (if 0 \<le> e then 2 ^ nat e else 1 / 2 ^ nat (- e))"

definition ilog2 :: "rat \<Rightarrow> int" where
  \<comment> \<open>for \<open>a > 0\<close>, the \<open>k\<close> with \<open>2 ^ k \<le> a < 2 ^ (k + 1)\<close>\<close>
  "ilog2 a =
     (if 1 \<le> a then bit_length \<lfloor>a\<rfloor> - 1
      else let j = bit_length \<lfloor>1 / a\<rfloor> - 1 in if a = pow2 (- j) then - j else - j - 1)"

definition round_half_even :: "rat \<Rightarrow> int" where
  "round_half_even x =
     (let f = \<lfloor>x\<rfloor>; d = x - of_int f
      in if d < 1 / 2 then f else if 1 / 2 < d then f + 1 else if even f then f else f + 1)"

definition round64 :: "rat \<Rightarrow> rat" where
  \<comment> \<open>the nearest double: 53 significant bits, exponent no lower than that of the subnormals\<close>
  "round64 x =
     (if x = 0 then 0
      else let a = \<bar>x\<bar>;
               e = max (ilog2 a - 52) (- 1074);
               m = round_half_even (a / pow2 e)
           in sgn x * of_int m * pow2 e)"

definition Number :: "rat \<Rightarrow> rat" where
  "Number x = round64 x"

definition fadd :: "rat \<Rightarrow> rat \<Rightarrow> rat" where
  "fadd x y = round64 (x + y)"

definition fsub :: "rat \<Rightarrow> rat \<Rightarrow> rat" where
  "fsub x y = round64 (x - y)"

definition fmul :: "rat \<Rightarrow> rat \<Rightarrow> rat" where
  "fmul x y = round64 (x * y)"

definition fdiv :: "rat \<Rightarrow> rat \<Rightarrow> rat" where
  "fdiv x y = round64 (x / y)"

definition exact64 :: "rat \<Rightarrow> bool" where
  \<comment> \<open>the value is a double: rounding leaves it as it is\<close>
  "exact64 x = (round64 x = x)"

definition ceil_days :: "int \<Rightarrow> int" where
  \<comment> \<open>\<^verbatim>\<open>Math.ceil(ms / (1000 * 60 * 60 * 24))\<close>\<close>
  "ceil_days ms = \<lceil>fdiv (of_int ms) (of_int ms_per_day)\<rceil>"

text \<open>
  The host's calendar: \<open>addDays t i\<close> is the instant \<^verbatim>\<open>d.setDate(d.getDate() + i)\<close> moves a
  date \<open>d\<close> at instant \<open>t\<close> to, the same local time \<open>i\<close> local days on. Where the offset of
  local time from UTC never changes, as in India, that is \<open>i\<close> times 24 hours later.
\<close>

type_synonym calendar = "instant \<Rightarrow> int \<Rightarrow> instant"

definition fixed_offset :: calendar where
  "fixed_offset t i = t + i * ms_per_day"

subsection \<open>Folio rows and totals\<close>

record folio_charge =
  fc_booking_id :: uuid
  charge_date :: day
  charge_amount :: rat
  charge_type :: string

record payment =
  pay_booking_id :: uuid
  payment_date :: instant
  payment_amount :: rat
  payment_mode :: string

record tax_config =
  cgst :: rat
  sgst :: rat

text \<open>The object returned by \<^verbatim>\<open>calculateFolioTotal\<close>.\<close>

record folio_total =
  ft_subtotal :: rat
  cgstAmount :: rat
  sgstAmount :: rat
  grandTotal :: rat
  totalPayments :: rat
  ft_balance :: rat

definition calculateFolioTotal ::
  "folio_charge list \<Rightarrow> payment list \<Rightarrow> tax_config \<Rightarrow> folio_total" where
  "calculateFolioTotal folioCharges payments taxes =
     (let totalCharges =
            foldl (\<lambda>sum charge. fadd sum (Number (charge_amount charge))) 0 folioCharges;
          totalPaid =
            foldl (\<lambda>sum payment. fadd sum (Number (payment_amount payment))) 0 payments;
          subtotal = totalCharges;
          cgstAmt = fdiv (fmul subtotal (Number (cgst taxes))) 100;
          sgstAmt = fdiv (fmul subtotal (Number (sgst taxes))) 100;
          grand = fadd (fadd subtotal cgstAmt) sgstAmt;
          bal = fsub grand totalPaid
      in \<lparr>ft_subtotal = subtotal, cgstAmount = cgstAmt, sgstAmount = sgstAmt,
          grandTotal = grand, totalPayments = totalPaid, ft_balance = bal\<rparr>)"

text \<open>The \<^verbatim>\<open>totals\<close> member of the archived \<^verbatim>\<open>DocumentData\<close>.\<close>

record totals =
  subtotal :: rat
  cgst_amount :: rat
  sgst_amount :: rat
  grand_total :: rat
  total_paid :: rat
  balance :: rat

definition invoice_totals ::
  "folio_charge list \<Rightarrow> payment list \<Rightarrow> tax_config \<Rightarrow> totals" where
  \<comment> \<open>lines 400 to 405 and 430 to 437 of \<^verbatim>\<open>archiveInvoice\<close>\<close>
  "invoice_totals folioCharges payments taxes =
     (let sub = foldl (\<lambda>sum c. fadd sum (Number (charge_amount c))) 0 folioCharges;
          cgstAmt = fdiv (fmul sub (Number (cgst taxes))) 100;
          sgstAmt = fdiv (fmul sub (Number (sgst taxes))) 100;
          grand = fadd (fadd sub cgstAmt) sgstAmt;
          paid = foldl (\<lambda>sum p. fadd sum (Number (payment_amount p))) 0 payments;
          bal = fsub grand paid
      in \<lparr>subtotal = sub, cgst_amount = cgstAmt, sgst_amount = sgstAmt,
          grand_total = grand, total_paid = paid, balance = bal\<rparr>)"

text \<open>
  The formulas of the specification, in exact arithmetic, to compare the computation with.
\<close>

definition spec_totals :: "folio_charge list \<Rightarrow> payment list \<Rightarrow> tax_config \<Rightarrow> totals" where
  "spec_totals cs ps t =
     (let sub = sum_list (map charge_amount cs);
          paid = sum_list (map payment_amount ps)
      in \<lparr>subtotal = sub, cgst_amount = sub * cgst t / 100, sgst_amount = sub * sgst t / 100,
          grand_total = sub + sub * cgst t / 100 + sub * sgst t / 100,
          total_paid = paid,
          balance = sub + sub * cgst t / 100 + sub * sgst t / 100 - paid\<rparr>)"

text \<open>
  No step of the computation rounds: the amounts and rates are doubles, and so is the exact
  value of every running sum, product, quotient and difference on the way.
\<close>

fun running_sums :: "rat \<Rightarrow> rat list \<Rightarrow> rat list" where
  "running_sums a [] = []"
| "running_sums a (x # xs) = (a + x) # running_sums (a + x) xs"

definition no_rounding :: "folio_charge list \<Rightarrow> payment list \<Rightarrow> tax_config \<Rightarrow> bool" where
  "no_rounding cs ps t =
     (let sub = sum_list (map charge_amount cs);
          paid = sum_list (map payment_amount ps)
      in list_all exact64 (map charge_amount cs)
         \<and> list_all exact64 (running_sums 0 (map charge_amount cs))
         \<and> list_all exact64 (map payment_amount ps)
         \<and> list_all exact64 (running_sums 0 (map payment_amount ps))
         \<and> list_all exact64
              [cgst t, sgst t, sub * cgst t, sub * cgst t / 100, sub * sgst t,
               sub * sgst t / 100, sub + sub * cgst t / 100,
               sub + sub * cgst t / 100 + sub * sgst t / 100,
               sub + sub * cgst t / 100 + sub * sgst t / 100 - paid])"

text \<open>Charges and payments with the given amounts, for the worked example of the folio.\<close>

definition charge_of :: "rat \<Rightarrow> folio_charge" where
  "charge_of a = \<lparr>fc_booking_id = ''b1'', charge_date = 0, charge_amount = a,
     charge_type = ''room_rent''\<rparr>"

definition payment_of :: "rat \<Rightarrow> payment" where
  "payment_of a = \<lparr>pay_booking_id = ''b1'', payment_date = 0, payment_amount = a,
     payment_mode = ''cash''\<rparr>"

subsection \<open>The store\<close>

datatype room_status = vacant_clean | vacant_dirty | occupied | out_of_order

datatype booking_status = checked_in | checked_out

datatype reservation_status = res_confirmed | res_cancelled | res_checked_in

text \<open>A row of \<^verbatim>\<open>rooms\<close> joined with its room type, as \<^verbatim>\<open>select('*, room_types(*)')\<close> gives it.\<close>

record room =
  room_id :: uuid
  room_number :: string
  room_state :: room_status
  room_type_id :: uuid
  room_type_name :: string
  base_rate :: rat

record guest =
  guest_ident :: uuid
  full_name :: string
  mobile :: string

record reservation =
  reservation_id :: uuid
  res_guest_id :: uuid
  res_check_out_date :: day
  res_number_of_guests :: int
  reservation_state :: reservation_status

text \<open>
  A row of \<^verbatim>\<open>bookings\<close>. Every routine that creates one gives it a guest and a room, so
  neither column is modelled as nullable.
\<close>

record booking =
  booking_id :: uuid
  guest_id :: uuid
  booking_room_id :: uuid
  check_in_date :: instant
  expected_check_out_date :: day
  actual_check_out_date :: "instant option"
  number_of_guests :: int
  advance_payment :: rat
  booking_state :: booking_status
  checked_out_by :: "uuid option"

text \<open>
  The \<^verbatim>\<open>Booking\<close> object the pages hold: a row of \<^verbatim>\<open>bookings\<close> joined with its guest, its
  room and the room's type (\<^verbatim>\<open>select('*, guests(*), rooms(*, room_types(*))')\<close>).
\<close>

record booking_view =
  bv_id :: uuid
  bv_check_in_date :: instant
  bv_expected_check_out_date :: day
  bv_actual_check_out_date :: "instant option"
  bv_number_of_guests :: int
  bv_guest_name :: string
  bv_guest_mobile :: string
  bv_room_id :: uuid
  bv_room_number :: string
  bv_room_type_name :: string
  bv_base_rate :: rat

text \<open>
  \<^verbatim>\<open>DocumentData\<close>, without the constant \<^verbatim>\<open>hotel\<close> block and the locale-rendered
  \<^verbatim>\<open>document_date\<close>. The check-out of the stay is the actual one when the booking has it,
  otherwise midnight of the expected date.
\<close>

record document_data =
  dd_guest_id :: uuid
  dd_full_name :: string
  dd_mobile :: string
  dd_room_number :: string
  dd_room_type :: string
  dd_base_rate :: rat
  dd_check_in_date :: instant
  dd_check_out_date :: instant
  dd_number_of_guests :: int
  dd_charges :: "folio_charge list"
  dd_payments :: "payment list"
  dd_taxes :: tax_config
  dd_totals :: totals

record guest_document =
  doc_booking_id :: uuid
  doc_guest_id :: uuid
  document_type :: string
  document_number :: string
  document_data :: document_data

text \<open>
  The tables, each in insertion order, and \<open>link\<close>: the outcomes of the requests still to
  come, \<open>False\<close> for one that the backend does not serve (network or store unavailable).
  Past the end of the list every request is served.
\<close>

record store =
  rooms :: "room list"
  guests :: "guest list"
  reservations :: "reservation list"
  bookings :: "booking list"
  folio_charges :: "folio_charge list"
  payments :: "payment list"
  guest_documents :: "guest_document list"
  link :: "bool list"

definition reach :: "store \<Rightarrow> bool \<times> store" where
  "reach s = (case link s of [] \<Rightarrow> (True, s) | ok # rest \<Rightarrow> (ok, s\<lparr>link := rest\<rparr>))"

text \<open>The CHECK constraints of the schema on the three tables the folio is written to.\<close>

definition valid_charge_type :: "string list" where
  "valid_charge_type =
     [''room_rent'', ''extra_bed'', ''early_checkin'', ''late_checkout'', ''miscellaneous'']"

definition valid_payment_mode :: "string list" where
  "valid_payment_mode = [''cash'', ''upi'', ''card'']"

definition valid_document_type :: "string list" where
  "valid_document_type = [''invoice'', ''grc'']"

text \<open>
  A \<^verbatim>\<open>decimal(10,2)\<close> column rounds the amount it is given to two decimals, half away
  from zero, and refuses it when the result has more than eight digits before the point.
  A form's amount goes out as typed (\<^verbatim>\<open>parseFloat\<close> and the JSON text return a decimal of
  up to 15 digits unchanged); a computed number goes out at its value.
\<close>

definition numeric_10_2 :: "rat \<Rightarrow> rat option" where
  "numeric_10_2 x =
     (let r = sgn x * of_int \<lfloor>\<bar>x\<bar> * 100 + 1 / 2\<rfloor> / 100
      in if \<bar>r\<bar> < 10 ^ 8 then Some r else None)"

text \<open>
  An insert answers \<open>True\<close> when the row was stored (\<^verbatim>\<open>error\<close> is null). The tables have no
  uniqueness constraint besides their generated primary key, so a served insert fails only
  on a CHECK or on an amount out of range. Foreign keys are not modelled: the routines
  pass identifiers of rows they have read.
\<close>

definition insert_folio_charge :: "folio_charge \<Rightarrow> store \<Rightarrow> bool \<times> store" where
  "insert_folio_charge c s =
     (let (ok, s1) = reach s
      in if ok \<and> charge_type c \<in> set valid_charge_type
         then (case numeric_10_2 (charge_amount c) of
                 None \<Rightarrow> (False, s1)
               | Some a \<Rightarrow>
                   (True, s1\<lparr>folio_charges := folio_charges s1 @ [c\<lparr>charge_amount := a\<rparr>]\<rparr>))
         else (False, s1))"

definition insert_payment :: "payment \<Rightarrow> store \<Rightarrow> bool \<times> store" where
  "insert_payment p s =
     (let (ok, s1) = reach s
      in if ok \<and> payment_mode p \<in> set valid_payment_mode
         then (case numeric_10_2 (payment_amount p) of
                 None \<Rightarrow> (False, s1)
               | Some a \<Rightarrow>
                   (True, s1\<lparr>payments := payments s1 @ [p\<lparr>payment_amount := a\<rparr>]\<rparr>))
         else (False, s1))"

definition insert_guest_document :: "guest_document \<Rightarrow> store \<Rightarrow> bool \<times> store" where
  "insert_guest_document d s =
     (let (ok, s1) = reach s
      in if ok \<and> document_type d \<in> set valid_document_type
         then (True, s1\<lparr>guest_documents := guest_documents s1 @ [d]\<rparr>)
         else (False, s1))"

text \<open>A select answers \<open>None\<close> (\<^verbatim>\<open>data\<close> is null) when the request is not served.\<close>

definition select_folio_charges :: "uuid \<Rightarrow> store \<Rightarrow> folio_charge list option \<times> store" where
  "select_folio_charges bookingId s =
     (let (ok, s1) = reach s
      in (if ok then Some (filter (\<lambda>c. fc_booking_id c = bookingId) (folio_charges s1))
          else None, s1))"

definition select_payments :: "uuid \<Rightarrow> store \<Rightarrow> payment list option \<times> store" where
  "select_payments bookingId s =
     (let (ok, s1) = reach s
      in (if ok then Some (filter (\<lambda>p. pay_booking_id p = bookingId) (payments s1))
          else None, s1))"

definition select_booking_guest_id :: "uuid \<Rightarrow> store \<Rightarrow> uuid option \<times> store" where
  \<comment> \<open>\<^verbatim>\<open>select('guest_id').eq('id', ...).single()\<close>: data only when exactly one row matches\<close>
  "select_booking_guest_id bookingId s =
     (let (ok, s1) = reach s
      in (if ok
          then (case filter (\<lambda>b. booking_id b = bookingId) (bookings s1) of
                  [b] \<Rightarrow> Some (guest_id b)
                | _ \<Rightarrow> None)
          else None, s1))"

definition update_bookings :: "uuid \<Rightarrow> (booking \<Rightarrow> booking) \<Rightarrow> store \<Rightarrow> store" where
  "update_bookings bookingId f s =
     (let (ok, s1) = reach s
      in if ok
         then s1\<lparr>bookings := map (\<lambda>b. if booking_id b = bookingId then f b else b) (bookings s1)\<rparr>
         else s1)"

definition update_room_status :: "uuid \<Rightarrow> room_status \<Rightarrow> store \<Rightarrow> store" where
  "update_room_status roomId st s =
     (let (ok, s1) = reach s
      in if ok
         then s1\<lparr>rooms := map (\<lambda>r. if room_id r = roomId then r\<lparr>room_state := st\<rparr> else r) (rooms s1)\<rparr>
         else s1)"

subsection \<open>Document archive service\<close>

definition invoice_prefix :: string where
  "invoice_prefix = ''INV''"

definition grc_prefix :: string where
  "grc_prefix = ''GRC''"

definition toUpperCase :: "char \<Rightarrow> char" where
  \<comment> \<open>on the ASCII letters; the identifiers are UUID texts\<close>
  "toUpperCase c =
     (let n = (of_char c :: nat) in if 97 \<le> n \<and> n \<le> 122 then char_of (n - 32) else c)"

definition documentNumber :: "string \<Rightarrow> uuid \<Rightarrow> string" where
  \<comment> \<open>\<^verbatim>\<open>`${prefix}-${booking.id.slice(0, 8).toUpperCase()}`\<close>\<close>
  "documentNumber prefix bookingId = prefix @ ''-'' @ map toUpperCase (take 8 bookingId)"

datatype archive_result = Archived string | ArchiveFailed

definition stay_check_out :: "booking_view \<Rightarrow> instant" where
  \<comment> \<open>\<^verbatim>\<open>booking.actual_check_out_date || booking.expected_check_out_date\<close>\<close>
  "stay_check_out b =
     (case bv_actual_check_out_date b of
        Some t \<Rightarrow> t
      | None \<Rightarrow> date_instant (bv_expected_check_out_date b))"

text \<open>
  Both archive routines take the booking and, apart, the guest identifier that
  \<^verbatim>\<open>confirmCheckout\<close> merges into it. Neither raises: a failed insert is caught inside and
  answered as \<^verbatim>\<open>{success: false}\<close>.
\<close>

definition archiveInvoice ::
  "booking_view \<Rightarrow> uuid \<Rightarrow> folio_charge list \<Rightarrow> payment list \<Rightarrow> tax_config \<Rightarrow> store
     \<Rightarrow> archive_result \<times> store" where
  "archiveInvoice b guestId folioCharges pays taxes s =
     (let docNumber = documentNumber invoice_prefix (bv_id b);
          documentData =
            \<lparr>dd_guest_id = guestId, dd_full_name = bv_guest_name b,
             dd_mobile = bv_guest_mobile b, dd_room_number = bv_room_number b,
             dd_room_type = bv_room_type_name b, dd_base_rate = bv_base_rate b,
             dd_check_in_date = bv_check_in_date b, dd_check_out_date = stay_check_out b,
             dd_number_of_guests = bv_number_of_guests b,
             dd_charges = folioCharges, dd_payments = pays, dd_taxes = taxes,
             dd_totals = invoice_totals folioCharges pays taxes\<rparr>;
          (stored, s1) = insert_guest_document
            \<lparr>doc_booking_id = bv_id b, doc_guest_id = guestId, document_type = ''invoice'',
             document_number = docNumber, document_data = documentData\<rparr> s
      in if stored then (Archived docNumber, s1) else (ArchiveFailed, s1))"

definition archiveGRC :: "booking_view \<Rightarrow> uuid \<Rightarrow> tax_config \<Rightarrow> store \<Rightarrow> archive_result \<times> store" where
  "archiveGRC b guestId taxes s =
     (let docNumber = documentNumber grc_prefix (bv_id b);
          documentData =
            \<lparr>dd_guest_id = guestId, dd_full_name = bv_guest_name b,
             dd_mobile = bv_guest_mobile b, dd_room_number = bv_room_number b,
             dd_room_type = bv_room_type_name b, dd_base_rate = bv_base_rate b,
             dd_check_in_date = bv_check_in_date b, dd_check_out_date = stay_check_out b,
             dd_number_of_guests = bv_number_of_guests b,
             dd_charges = [], dd_payments = [], dd_taxes = taxes,
             dd_totals = \<lparr>subtotal = 0, cgst_amount = 0, sgst_amount = 0, grand_total = 0,
               total_paid = 0, balance = 0\<rparr>\<rparr>;
          (stored, s1) = insert_guest_document
            \<lparr>doc_booking_id = bv_id b, doc_guest_id = guestId, document_type = ''grc'',
             document_number = docNumber, document_data = documentData\<rparr> s
      in if stored then (Archived docNumber, s1) else (ArchiveFailed, s1))"

subsection \<open>In-house page: checkout, manual charge, stay extension\<close>

text \<open>
  \<^verbatim>\<open>confirmCheckout\<close>. No awaited request raises (a failure comes back in \<^verbatim>\<open>error\<close>, which
  the routine never reads) and the archive routines catch their own failures, so the
  routine always runs to its last request. Their answers are dropped, as in the source.
\<close>

definition insert_final_payment ::
  "booking_view \<Rightarrow> (rat \<times> string) option \<Rightarrow> instant \<Rightarrow> store \<Rightarrow> store" where
  \<comment> \<open>\<^verbatim>\<open>if (checkoutPaymentData && checkoutPaymentData.amount > 0) { ... }\<close>\<close>
  "insert_final_payment b checkoutPaymentData now s =
     (case checkoutPaymentData of
        None \<Rightarrow> s
      | Some (amt, mode) \<Rightarrow>
          if Number amt > 0
          then snd (insert_payment
                 \<lparr>pay_booking_id = bv_id b, payment_date = now,
                  payment_amount = amt, payment_mode = mode\<rparr> s)
          else s)"

definition confirmCheckout ::
  "booking_view option \<Rightarrow> (rat \<times> string) option \<Rightarrow> tax_config \<Rightarrow> uuid option \<Rightarrow> instant
     \<Rightarrow> store \<Rightarrow> store" where
  "confirmCheckout selectedBooking checkoutPaymentData taxes user now s =
     (case selectedBooking of
        None \<Rightarrow> s
      | Some b \<Rightarrow>
          let s1 = insert_final_payment b checkoutPaymentData now s;
              (finalCharges, s2) = select_folio_charges (bv_id b) s1;
              (finalPayments, s3) = select_payments (bv_id b) s2;
              (bookingData, s4) = select_booking_guest_id (bv_id b) s3;
              s5 = (case bookingData of
                      None \<Rightarrow> s4
                    | Some guestId \<Rightarrow>
                        snd (archiveGRC b guestId taxes
                          (snd (archiveInvoice b guestId
                             (case finalCharges of None \<Rightarrow> [] | Some cs \<Rightarrow> cs)
                             (case finalPayments of None \<Rightarrow> [] | Some ps \<Rightarrow> ps)
                             taxes s4))));
              s6 = update_bookings (bv_id b)
                     (\<lambda>r. r\<lparr>booking_state := checked_out, actual_check_out_date := Some now,
                            checked_out_by := user\<rparr>) s5
          in update_room_status (bv_room_id b) vacant_dirty s6)"

text \<open>
  Recomputing an archived document: the folio formula of the in-house page over the
  charges, payments and rates of the payload, against the totals stored beside them.
\<close>

definition recomputed_totals :: "document_data \<Rightarrow> totals" where
  "recomputed_totals dd =
     (let ft = calculateFolioTotal (dd_charges dd) (dd_payments dd) (dd_taxes dd)
      in \<lparr>subtotal = ft_subtotal ft, cgst_amount = cgstAmount ft, sgst_amount = sgstAmount ft,
          grand_total = grandTotal ft, total_paid = totalPayments ft,
          balance = ft_balance ft\<rparr>)"

definition roundtrip_ok :: "guest_document \<Rightarrow> bool" where
  "roundtrip_ok d = (recomputed_totals (document_data d) = dd_totals (document_data d))"

text \<open>\<^verbatim>\<open>handleAddCharge\<close>: the form's date, amount and type go to the store as they are.\<close>

definition handleAddCharge ::
  "booking_view option \<Rightarrow> day \<Rightarrow> rat \<Rightarrow> string \<Rightarrow> store \<Rightarrow> store" where
  "handleAddCharge selectedBooking chargeDate amt chargeType s =
     (case selectedBooking of
        None \<Rightarrow> s
      | Some b \<Rightarrow>
          snd (insert_folio_charge
                 \<lparr>fc_booking_id = bv_id b, charge_date = chargeDate, charge_amount = amt,
                  charge_type = chargeType\<rparr> s))"

text \<open>
  \<^verbatim>\<open>handleExtendStay\<close>: one room-rent charge for each added night, then the new expected
  check-out. The date of night \<open>i\<close> is the UTC date of the instant the host's calendar
  steps to from midnight UTC of the current expected check-out.
\<close>

definition handleExtendStay ::
  "calendar \<Rightarrow> booking_view option \<Rightarrow> day \<Rightarrow> store \<Rightarrow> store" where
  "handleExtendStay addDays selectedBooking newCheckoutDate s =
     (case selectedBooking of
        None \<Rightarrow> s
      | Some b \<Rightarrow>
          let currentCheckout = date_instant (bv_expected_check_out_date b);
              additionalNights = ceil_days (date_instant newCheckoutDate - currentCheckout);
              s1 = (if additionalNights > 0
                    then foldl (\<lambda>st i. snd (insert_folio_charge
                                 \<lparr>fc_booking_id = bv_id b,
                                  charge_date = iso_date (addDays currentCheckout (int i)),
                                  charge_amount = Number (bv_base_rate b),
                                  charge_type = ''room_rent''\<rparr> st))
                           s [0 ..< nat additionalNights]
                    else s)
          in update_bookings (bv_id b)
               (\<lambda>r. r\<lparr>expected_check_out_date := newCheckoutDate\<rparr>) s1)"

subsection \<open>Night audit\<close>

definition select_room_rent_on :: "uuid \<Rightarrow> day \<Rightarrow> store \<Rightarrow> folio_charge list option \<times> store" where
  \<comment> \<open>\<^verbatim>\<open>.eq('booking_id', ...).eq('charge_date', today).eq('charge_type', 'room_rent')\<close>\<close>
  "select_room_rent_on bookingId today s =
     (let (ok, s1) = reach s
      in (if ok
          then Some (filter (\<lambda>c. fc_booking_id c = bookingId \<and> charge_date c = today
                               \<and> charge_type c = ''room_rent'') (folio_charges s1))
          else None, s1))"

text \<open>
  The loop of \<^verbatim>\<open>runNightAudit\<close> over the in-house bookings the page holds, with its two
  counters \<^verbatim>\<open>chargesPosted\<close> and \<^verbatim>\<open>totalAmount\<close>.
\<close>

fun night_audit_loop ::
  "day \<Rightarrow> booking_view list \<Rightarrow> nat \<times> rat \<Rightarrow> store \<Rightarrow> (nat \<times> rat) \<times> store" where
  "night_audit_loop today [] acc s = (acc, s)"
| "night_audit_loop today (b # rest) (chargesPosted, totalAmount) s =
     (if iso_date (bv_check_in_date b) < today
      then let roomRate = Number (bv_base_rate b);
               (existingCharge, s1) = select_room_rent_on (bv_id b) today s
           in if (case existingCharge of None \<Rightarrow> True | Some found \<Rightarrow> length found = 0)
              then let (stored, s2) = insert_folio_charge
                         \<lparr>fc_booking_id = bv_id b, charge_date = today,
                          charge_amount = roomRate, charge_type = ''room_rent''\<rparr> s1
                   in night_audit_loop today rest (chargesPosted + 1, fadd totalAmount roomRate) s2
              else night_audit_loop today rest (chargesPosted, totalAmount) s1
      else night_audit_loop today rest (chargesPosted, totalAmount) s)"

definition runNightAudit :: "booking_view list \<Rightarrow> day \<Rightarrow> store \<Rightarrow> (nat \<times> rat) \<times> store" where
  "runNightAudit inHouseBookings today s = night_audit_loop today inHouseBookings (0, 0) s"

definition room_rent_count :: "store \<Rightarrow> uuid \<Rightarrow> day \<Rightarrow> nat" where
  "room_rent_count s bookingId d =
     length (filter (\<lambda>c. fc_booking_id c = bookingId \<and> charge_date c = d
                         \<and> charge_type c = ''room_rent'') (folio_charges s))"

subsection \<open>Check-in page\<close>

text \<open>
  The part of \<^verbatim>\<open>loadData\<close> that fills \<^verbatim>\<open>availableRooms\<close>. The rooms are looked up by
  identifier only, so the order by room number is left out.
\<close>

definition loadData :: "store \<Rightarrow> room list \<times> store" where
  "loadData s =
     (let (ok, s1) = reach s
      in (if ok then filter (\<lambda>r. room_state r = vacant_clean) (rooms s1) else [], s1))"

datatype notice = NoNotice | Succeeded | Failed

definition insert_booking :: "booking \<Rightarrow> store \<Rightarrow> booking option \<times> store" where
  \<comment> \<open>\<^verbatim>\<open>insert([...]).select().single()\<close>\<close>
  "insert_booking b s =
     (let (ok, s1) = reach s
      in if ok
         then (case numeric_10_2 (advance_payment b) of
                 None \<Rightarrow> (None, s1)
               | Some a \<Rightarrow>
                   (Some (b\<lparr>advance_payment := a\<rparr>),
                    s1\<lparr>bookings := bookings s1 @ [b\<lparr>advance_payment := a\<rparr>]\<rparr>))
         else (None, s1))"

definition update_reservation_status :: "uuid \<Rightarrow> reservation_status \<Rightarrow> store \<Rightarrow> store" where
  "update_reservation_status resId st s =
     (let (ok, s1) = reach s
      in if ok
         then s1\<lparr>reservations :=
                  map (\<lambda>r. if reservation_id r = resId then r\<lparr>reservation_state := st\<rparr> else r)
                    (reservations s1)\<rparr>
         else s1)"

text \<open>
  \<^verbatim>\<open>processCheckIn\<close>. \<open>newId\<close> is the identifier the store generates for the booking row.
  An empty \<^verbatim>\<open>selectedRoom\<close> or no reservation returns at once; a room that is not in
  \<^verbatim>\<open>availableRooms\<close> and a failed booking insert raise, which the routine reports.
\<close>

definition processCheckIn ::
  "reservation option \<Rightarrow> uuid \<Rightarrow> room list \<Rightarrow> instant \<Rightarrow> uuid \<Rightarrow> store \<Rightarrow> notice \<times> store" where
  "processCheckIn selectedReservation selectedRoom availableRooms now newId s =
     (case selectedReservation of
        None \<Rightarrow> (NoNotice, s)
      | Some res \<Rightarrow>
          if selectedRoom = [] then (NoNotice, s)
          else
            (case find (\<lambda>r. room_id r = selectedRoom) availableRooms of
               None \<Rightarrow> (Failed, s)
             | Some rm \<Rightarrow>
                 let nights = ceil_days (date_instant (res_check_out_date res) - now);
                     (bookingData, s1) = insert_booking
                       \<lparr>booking_id = newId, guest_id = res_guest_id res,
                        booking_room_id = selectedRoom, check_in_date = now,
                        expected_check_out_date = res_check_out_date res,
                        actual_check_out_date = None,
                        number_of_guests = res_number_of_guests res,
                        advance_payment = 0, booking_state = checked_in,
                        checked_out_by = None\<rparr> s
                 in (case bookingData of
                       None \<Rightarrow> (Failed, s1)
                     | Some bk \<Rightarrow>
                         let roomRate = fmul (Number (base_rate rm)) (of_int nights);
                             (stored, s2) = insert_folio_charge
                               \<lparr>fc_booking_id = booking_id bk, charge_date = iso_date now,
                                charge_amount = roomRate, charge_type = ''room''\<rparr> s1;
                             s3 = update_room_status selectedRoom occupied s2
                         in (Succeeded,
                             update_reservation_status (reservation_id res) res_checked_in s3))))"

text \<open>The walk-in form; \<^verbatim>\<open>nights\<close> is the \<^verbatim>\<open>parseInt\<close> of the number field.\<close>

record walk_in =
  guestName :: string
  wi_mobile :: string
  roomId :: uuid
  numberOfGuests :: int
  nights :: int
  advancePayment :: rat
  paymentMode :: string

definition select_guest_by_mobile :: "string \<Rightarrow> store \<Rightarrow> uuid option \<times> store" where
  \<comment> \<open>\<^verbatim>\<open>select('id').eq('mobile', ...).single()\<close>\<close>
  "select_guest_by_mobile m s =
     (let (ok, s1) = reach s
      in (if ok
          then (case filter (\<lambda>g. mobile g = m) (guests s1) of
                  [g] \<Rightarrow> Some (guest_ident g)
                | _ \<Rightarrow> None)
          else None, s1))"

definition insert_guest :: "guest \<Rightarrow> store \<Rightarrow> guest option \<times> store" where
  \<comment> \<open>\<^verbatim>\<open>mobile\<close> is UNIQUE\<close>
  "insert_guest g s =
     (let (ok, s1) = reach s
      in if ok \<and> mobile g \<notin> set (map mobile (guests s1))
         then (Some g, s1\<lparr>guests := guests s1 @ [g]\<rparr>)
         else (None, s1))"

text \<open>
  \<^verbatim>\<open>processWalkIn\<close>. \<open>newGuestId\<close> and \<open>newId\<close> are the identifiers the store generates for a
  new guest row and for the booking row; the expected check-out is the UTC date of the
  instant the host's calendar steps to from now.
\<close>

definition processWalkIn ::
  "calendar \<Rightarrow> walk_in \<Rightarrow> room list \<Rightarrow> instant \<Rightarrow> uuid \<Rightarrow> uuid \<Rightarrow> store
     \<Rightarrow> notice \<times> store" where
  "processWalkIn addDays walkInData availableRooms now newGuestId newId s =
     (if guestName walkInData = [] \<or> wi_mobile walkInData = [] \<or> roomId walkInData = []
      then (NoNotice, s)
      else
        let (existingGuest, s1) = select_guest_by_mobile (wi_mobile walkInData) s;
            (guestId, s2) =
              (case existingGuest of
                 Some g \<Rightarrow> (Some g, s1)
               | None \<Rightarrow>
                   (case insert_guest \<lparr>guest_ident = newGuestId, full_name = guestName walkInData,
                                       mobile = wi_mobile walkInData\<rparr> s1 of
                      (newGuest, s') \<Rightarrow> (map_option guest_ident newGuest, s')))
        in (case guestId of
              None \<Rightarrow> (Failed, s2)
            | Some gid \<Rightarrow>
                (case find (\<lambda>r. room_id r = roomId walkInData) availableRooms of
                   None \<Rightarrow> (Failed, s2)
                 | Some rm \<Rightarrow>
                     let checkOut = addDays now (nights walkInData);
                         (bookingData, s3) = insert_booking
                           \<lparr>booking_id = newId, guest_id = gid,
                            booking_room_id = roomId walkInData, check_in_date = now,
                            expected_check_out_date = iso_date checkOut,
                            actual_check_out_date = None,
                            number_of_guests = numberOfGuests walkInData,
                            advance_payment = advancePayment walkInData,
                            booking_state = checked_in, checked_out_by = None\<rparr> s2
                     in (case bookingData of
                           None \<Rightarrow> (Failed, s3)
                         | Some bk \<Rightarrow>
                             let roomRate =
                                   fmul (Number (base_rate rm)) (of_int (nights walkInData));
                                 (stored, s4) = insert_folio_charge
                                   \<lparr>fc_booking_id = booking_id bk, charge_date = iso_date now,
                                    charge_amount = roomRate, charge_type = ''room''\<rparr> s3;
                                 s5 = (if Number (advancePayment walkInData) > 0
                                       then snd (insert_payment
                                              \<lparr>pay_booking_id = booking_id bk,
                                               payment_date = now,
                                               payment_amount = advancePayment walkInData,
                                               payment_mode = paymentMode walkInData\<rparr> s4)
                                       else s4)
                             in (Succeeded,
                                 update_room_status (roomId walkInData) occupied s5)))))"

subsection \<open>A stay and an arrival, for the worked cases\<close>

definition ex_taxes :: tax_config where
  "ex_taxes = \<lparr>cgst = 6, sgst = 6\<rparr>"

definition ex_booking :: booking_view where
  "ex_booking =
     \<lparr>bv_id = ''3f2a9c1e-7b4d-4c55-9a10-5d2e8f6a0b11'', bv_check_in_date = 36000000,
      bv_expected_check_out_date = 2, bv_actual_check_out_date = None,
      bv_number_of_guests = 2, bv_guest_name = ''Asha Rao'',
      bv_guest_mobile = ''9000000001'', bv_room_id = ''room-101'', bv_room_number = ''101'',
      bv_room_type_name = ''Standard'', bv_base_rate = 1500\<rparr>"

text \<open>
  Room 101 is occupied by that stay, checked in on day 0 and expected out on day 2, with
  the room rent of days 0 and 1 on its folio.
\<close>

definition ex_store :: store where
  "ex_store =
     \<lparr>rooms = [\<lparr>room_id = ''room-101'', room_number = ''101'', room_state = occupied,
                 room_type_id = ''type-std'', room_type_name = ''Standard'',
                 base_rate = 1500\<rparr>],
      guests = [\<lparr>guest_ident = ''guest-1'', full_name = ''Asha Rao'',
                  mobile = ''9000000001''\<rparr>],
      reservations = [],
      bookings = [\<lparr>booking_id = ''3f2a9c1e-7b4d-4c55-9a10-5d2e8f6a0b11'',
                    guest_id = ''guest-1'', booking_room_id = ''room-101'',
                    check_in_date = 36000000, expected_check_out_date = 2,
                    actual_check_out_date = None, number_of_guests = 2,
                    advance_payment = 0, booking_state = checked_in,
                    checked_out_by = None\<rparr>],
      folio_charges =
        [\<lparr>fc_booking_id = ''3f2a9c1e-7b4d-4c55-9a10-5d2e8f6a0b11'', charge_date = 0,
          charge_amount = 1500, charge_type = ''room_rent''\<rparr>,
         \<lparr>fc_booking_id = ''3f2a9c1e-7b4d-4c55-9a10-5d2e8f6a0b11'', charge_date = 1,
          charge_amount = 1500, charge_type = ''room_rent''\<rparr>],
      payments = [], guest_documents = [], link = []\<rparr>"

text \<open>
  The same store when the backend serves the payment insert and the three reads of a
  checkout, then fails the two document inserts, then serves again.
\<close>

definition archive_down :: store where
  "archive_down = ex_store\<lparr>link := [True, True, True, True, False, False]\<rparr>"

definition ex_checkout :: "store \<Rightarrow> store" where
  "ex_checkout s =
     confirmCheckout (Some ex_booking) (Some (1000, ''cash'')) ex_taxes (Some ''user-1'')
       187200000 s"

text \<open>Two confirmed reservations arriving on day 3 while rooms 101 and 102 are vacant and clean.\<close>

definition res_1 :: reservation where
  "res_1 = \<lparr>reservation_id = ''res-1'', res_guest_id = ''guest-1'', res_check_out_date = 5,
     res_number_of_guests = 2, reservation_state = res_confirmed\<rparr>"

definition res_2 :: reservation where
  "res_2 = \<lparr>reservation_id = ''res-2'', res_guest_id = ''guest-2'', res_check_out_date = 4,
     res_number_of_guests = 1, reservation_state = res_confirmed\<rparr>"

definition arrivals :: store where
  "arrivals =
     \<lparr>rooms = [\<lparr>room_id = ''room-101'', room_number = ''101'', room_state = vacant_clean,
                 room_type_id = ''type-std'', room_type_name = ''Standard'',
                 base_rate = 1500\<rparr>,
                \<lparr>room_id = ''room-102'', room_number = ''102'', room_state = vacant_clean,
                 room_type_id = ''type-std'', room_type_name = ''Standard'',
                 base_rate = 1500\<rparr>],
      guests = [\<lparr>guest_ident = ''guest-1'', full_name = ''Asha Rao'',
                  mobile = ''9000000001''\<rparr>,
                \<lparr>guest_ident = ''guest-2'', full_name = ''Vikram Shah'',
                  mobile = ''9000000002''\<rparr>],
      reservations = [res_1, res_2],
      bookings = [], folio_charges = [], payments = [], guest_documents = [], link = []\<rparr>"

definition ex_now :: instant where
  "ex_now = 295200000"

text \<open>
  Two desks load their room lists from that store; the first checks reservation 1 into
  room 101, then the second, still holding its list, checks reservation 2 into room 101.
\<close>

definition offered_rooms :: "room list" where
  "offered_rooms = fst (loadData arrivals)"

definition first_check_in :: "notice \<times> store" where
  "first_check_in =
     processCheckIn (Some res_1) ''room-101'' offered_rooms ex_now ''booking-1'' arrivals"

definition second_check_in :: "notice \<times> store" where
  "second_check_in =
     processCheckIn (Some res_2) ''room-101'' offered_rooms ex_now ''booking-2''
       (snd first_check_in)"

text \<open>The store after the first check-in, and the room list a desk loads from it.\<close>

definition desk_after :: store where
  "desk_after = snd first_check_in"

definition fresh_rooms :: "room list" where
  "fresh_rooms = fst (loadData desk_after)"

definition ex_walk_in :: walk_in where
  "ex_walk_in = \<lparr>guestName = ''Meera Nair'', wi_mobile = ''9000000003'',
     roomId = ''room-101'', numberOfGuests = 1, nights = 2, advancePayment = 500,
     paymentMode = ''cash''\<rparr>"

section \<open>Totals\<close>

lemma round64_zero [simp]: "round64 0 = 0"
  by (simp add: round64_def)

lemma exact64_round: "exact64 x \<Longrightarrow> round64 x = x"
  by (simp add: exact64_def)

lemma foldl_unrounded:
  "list_all exact64 (map f xs) \<Longrightarrow> list_all exact64 (running_sums a (map f xs)) \<Longrightarrow>
   foldl (\<lambda>sum x. fadd sum (Number (f x))) a xs = a + sum_list (map f xs)"
proof (induction xs arbitrary: a)
  case Nil
  then show ?case by simp
next
  case (Cons x xs)
  from Cons.prems have "fadd a (Number (f x)) = a + f x"
    by (simp add: fadd_def Number_def exact64_round)
  with Cons show ?case by (simp add: add.assoc)
qed

lemma invoice_totals_unrounded:
  assumes "no_rounding cs ps t"
  shows "invoice_totals cs ps t = spec_totals cs ps t"
proof -
  let ?S = "sum_list (map charge_amount cs)"
  let ?P = "sum_list (map payment_amount ps)"
  from assms have sub: "foldl (\<lambda>sum c. fadd sum (Number (charge_amount c))) 0 cs = ?S"
    by (simp add: no_rounding_def Let_def foldl_unrounded)
  from assms have paid: "foldl (\<lambda>sum p. fadd sum (Number (payment_amount p))) 0 ps = ?P"
    by (simp add: no_rounding_def Let_def foldl_unrounded)
  from assms have ex:
    "round64 (cgst t) = cgst t" "round64 (sgst t) = sgst t"
    "round64 (?S * cgst t) = ?S * cgst t" "round64 (?S * cgst t / 100) = ?S * cgst t / 100"
    "round64 (?S * sgst t) = ?S * sgst t" "round64 (?S * sgst t / 100) = ?S * sgst t / 100"
    "round64 (?S + ?S * cgst t / 100) = ?S + ?S * cgst t / 100"
    "round64 (?S + ?S * cgst t / 100 + ?S * sgst t / 100) =
       ?S + ?S * cgst t / 100 + ?S * sgst t / 100"
    "round64 (?S + ?S * cgst t / 100 + ?S * sgst t / 100 - ?P) =
       ?S + ?S * cgst t / 100 + ?S * sgst t / 100 - ?P"
    by (simp_all add: no_rounding_def Let_def exact64_def)
  have "invoice_totals cs ps t =
     \<lparr>subtotal = ?S, cgst_amount = fdiv (fmul ?S (Number (cgst t))) 100,
      sgst_amount = fdiv (fmul ?S (Number (sgst t))) 100,
      grand_total = fadd (fadd ?S (fdiv (fmul ?S (Number (cgst t))) 100))
                      (fdiv (fmul ?S (Number (sgst t))) 100),
      total_paid = ?P,
      balance = fsub (fadd (fadd ?S (fdiv (fmul ?S (Number (cgst t))) 100))
                      (fdiv (fmul ?S (Number (sgst t))) 100)) ?P\<rparr>"
    unfolding invoice_totals_def Let_def sub paid by (rule refl)
  also have "\<dots> = spec_totals cs ps t"
    by (simp add: spec_totals_def Let_def fadd_def fsub_def fmul_def fdiv_def Number_def ex)
  finally show ?thesis .
qed

lemma folio_is_invoice:
  "calculateFolioTotal cs ps t =
     \<lparr>ft_subtotal = subtotal (invoice_totals cs ps t),
      cgstAmount = cgst_amount (invoice_totals cs ps t),
      sgstAmount = sgst_amount (invoice_totals cs ps t),
      grandTotal = grand_total (invoice_totals cs ps t),
      totalPayments = total_paid (invoice_totals cs ps t),
      ft_balance = balance (invoice_totals cs ps t)\<rparr>"
  by (simp add: calculateFolioTotal_def invoice_totals_def Let_def)

lemma folio_of_two_tenths:
  "calculateFolioTotal [charge_of (1 / 10), charge_of (2 / 10)] [] ex_taxes =
     \<lparr>ft_subtotal = 1351079888211149 / 4503599627370496,
      cgstAmount = 1297036692682703 / 72057594037927936,
      sgstAmount = 1297036692682703 / 72057594037927936,
      grandTotal = 1513209474796487 / 4503599627370496,
      totalPayments = 0,
      ft_balance = 1513209474796487 / 4503599627370496\<rparr>"
  by code_simp

lemma folio_of_2499_and_350_50:
  "calculateFolioTotal [charge_of 2499, charge_of (701 / 2)] [payment_of 1000] ex_taxes =
     \<lparr>ft_subtotal = 5699 / 2,
      cgstAmount = 6015472096027607 / 35184372088832,
      sgstAmount = 6015472096027607 / 35184372088832,
      grandTotal = 3509025389349437 / 1099511627776,
      totalPayments = 1000,
      ft_balance = 2409513761573437 / 1099511627776\<rparr>"
  by code_simp

text \<open>
  C2, as claimed: for every set of charges, payments and rates the six totals are the exact
  formulas. The routine computes in doubles. For charges 0.10 and 0.20 its subtotal is
  0.30000000000000004, not 0.30; for charges 2499 and 350.50 at rates 6 and 6 its CGST is
  the double next to 170.97, not 170.97, and its grand total 3191.4399999999996 is not
  even the exact sum of its own subtotal and taxes.
\<close>

theorem folio_totals_rounded:
  "ft_subtotal (calculateFolioTotal [charge_of (1 / 10), charge_of (2 / 10)] [] ex_taxes)
     = 1351079888211149 / 4503599627370496
   \<and> ft_subtotal (calculateFolioTotal [charge_of (1 / 10), charge_of (2 / 10)] [] ex_taxes)
     \<noteq> 1 / 10 + 2 / 10
   \<and> ft_subtotal
       (calculateFolioTotal [charge_of 2499, charge_of (701 / 2)] [payment_of 1000] ex_taxes)
     = 5699 / 2
   \<and> cgstAmount
       (calculateFolioTotal [charge_of 2499, charge_of (701 / 2)] [payment_of 1000] ex_taxes)
     = 6015472096027607 / 35184372088832
   \<and> cgstAmount
       (calculateFolioTotal [charge_of 2499, charge_of (701 / 2)] [payment_of 1000] ex_taxes)
     \<noteq> 5699 / 2 * 6 / 100
   \<and> grandTotal
       (calculateFolioTotal [charge_of 2499, charge_of (701 / 2)] [payment_of 1000] ex_taxes)
     \<noteq> 5699 / 2 + 6015472096027607 / 35184372088832 + 6015472096027607 / 35184372088832"
  unfolding folio_of_two_tenths folio_of_2499_and_350_50 by simp

text \<open>
  C2, amended. When no step rounds (the amounts and rates are doubles, and so is the exact
  value of every running sum, product, quotient and difference of the computation), the
  folio totals are the exact formulas: subtotal the sum of the charge amounts, each tax the
  subtotal times its rate over 100, the grand total their sum, the total paid the sum of
  the payment amounts, the balance the grand total less the total paid; the archive
  service stores the same six numbers. That is the case for charges 1500 and 1500,
  rates 6 and 6 and one payment of 1000, where the result is 3000, 180, 180, 3360, 1000
  and 2360.
\<close>

theorem calculateFolioTotal_formulas:
  assumes "no_rounding cs ps t"
  shows "calculateFolioTotal cs ps t =
     \<lparr>ft_subtotal = sum_list (map charge_amount cs),
      cgstAmount = sum_list (map charge_amount cs) * cgst t / 100,
      sgstAmount = sum_list (map charge_amount cs) * sgst t / 100,
      grandTotal = sum_list (map charge_amount cs)
        + sum_list (map charge_amount cs) * cgst t / 100
        + sum_list (map charge_amount cs) * sgst t / 100,
      totalPayments = sum_list (map payment_amount ps),
      ft_balance = sum_list (map charge_amount cs)
        + sum_list (map charge_amount cs) * cgst t / 100
        + sum_list (map charge_amount cs) * sgst t / 100
        - sum_list (map payment_amount ps)\<rparr>
   \<and> invoice_totals cs ps t =
     \<lparr>subtotal = ft_subtotal (calculateFolioTotal cs ps t),
      cgst_amount = cgstAmount (calculateFolioTotal cs ps t),
      sgst_amount = sgstAmount (calculateFolioTotal cs ps t),
      grand_total = grandTotal (calculateFolioTotal cs ps t),
      total_paid = totalPayments (calculateFolioTotal cs ps t),
      balance = ft_balance (calculateFolioTotal cs ps t)\<rparr>"
  using invoice_totals_unrounded [OF assms]
  by (simp add: folio_is_invoice [of cs ps t] spec_totals_def Let_def)

theorem calculateFolioTotal_formulas_witness:
  "no_rounding [charge_of 1500, charge_of 1500] [payment_of 1000] \<lparr>cgst = 6, sgst = 6\<rparr>
   \<and> calculateFolioTotal [charge_of 1500, charge_of 1500] [payment_of 1000]
       \<lparr>cgst = 6, sgst = 6\<rparr> =
     \<lparr>ft_subtotal = 3000, cgstAmount = 180, sgstAmount = 180, grandTotal = 3360,
      totalPayments = 1000, ft_balance = 2360\<rparr>"
proof -
  have h: "no_rounding [charge_of 1500, charge_of 1500] [payment_of 1000]
             \<lparr>cgst = 6, sgst = 6\<rparr>"
    by code_simp
  from calculateFolioTotal_formulas [OF h] h show ?thesis
    by (simp add: charge_of_def payment_of_def)
qed

text \<open>
  C7, as claimed: for every charge set and rates the grand total is the closed form, no
  intermediate step rounding. For charges 2499 and 350.50 at rates 6 and 6 the routine
  returns 3191.4399999999996, in the folio view and in the archived invoice; the closed
  form is 3191.44.
\<close>

theorem grand_total_rounded:
  "grandTotal
     (calculateFolioTotal [charge_of 2499, charge_of (701 / 2)] [payment_of 1000] ex_taxes)
     = 3509025389349437 / 1099511627776
   \<and> grand_total
       (invoice_totals [charge_of 2499, charge_of (701 / 2)] [payment_of 1000] ex_taxes)
     = 3509025389349437 / 1099511627776
   \<and> sum_list (map charge_amount [charge_of 2499, charge_of (701 / 2)])
       * (1 + (cgst ex_taxes + sgst ex_taxes) / 100) = 319144 / 100
   \<and> (3509025389349437 / 1099511627776 :: rat) \<noteq> 319144 / 100"
proof -
  have "grand_total
       (invoice_totals [charge_of 2499, charge_of (701 / 2)] [payment_of 1000] ex_taxes)
     = grandTotal
     (calculateFolioTotal [charge_of 2499, charge_of (701 / 2)] [payment_of 1000] ex_taxes)"
    by (simp add: folio_is_invoice)
  then show ?thesis
    unfolding folio_of_2499_and_350_50 by (simp add: charge_of_def ex_taxes_def)
qed

text \<open>
  C7, amended. When no step rounds, the grand total is the sum of the charge amounts times
  \<open>1 + (c + s) / 100\<close>, in the folio view and in the archived invoice alike. No step of
  the computation rounds to currency precision (a subtotal of one paisa keeps a tax of
  about six ten-thousandths of a rupee); each operation rounds to the nearest double.
\<close>

theorem grandTotal_closed_form:
  assumes "no_rounding cs ps t"
  shows "grandTotal (calculateFolioTotal cs ps t) =
           sum_list (map charge_amount cs) * (1 + (cgst t + sgst t) / 100)
         \<and> grand_total (invoice_totals cs ps t) =
           sum_list (map charge_amount cs) * (1 + (cgst t + sgst t) / 100)"
  using invoice_totals_unrounded [OF assms]
  by (simp add: folio_is_invoice [of cs ps t] spec_totals_def Let_def algebra_simps
      add_divide_distrib)

theorem grandTotal_closed_form_witness:
  "no_rounding [charge_of (2401 / 2), charge_of (1599 / 2)] [] \<lparr>cgst = 6, sgst = 6\<rparr>
   \<and> grandTotal (calculateFolioTotal [charge_of (2401 / 2), charge_of (1599 / 2)] []
        \<lparr>cgst = 6, sgst = 6\<rparr>) = 2240
   \<and> cgstAmount (calculateFolioTotal [charge_of (1 / 100)] [] \<lparr>cgst = 6, sgst = 6\<rparr>)
     = 5534023222112865 / 9223372036854775808"
proof -
  have h: "no_rounding [charge_of (2401 / 2), charge_of (1599 / 2)] []
             \<lparr>cgst = 6, sgst = 6\<rparr>"
    by code_simp
  have p: "cgstAmount (calculateFolioTotal [charge_of (1 / 100)] [] \<lparr>cgst = 6, sgst = 6\<rparr>)
     = 5534023222112865 / 9223372036854775808"
    by code_simp
  from grandTotal_closed_form [OF h] h p show ?thesis
    by (simp add: charge_of_def)
qed

section \<open>The backend link and the tables\<close>

lemma reach_frame [simp]:
  "rooms (snd (reach s)) = rooms s"
  "guests (snd (reach s)) = guests s"
  "reservations (snd (reach s)) = reservations s"
  "bookings (snd (reach s)) = bookings s"
  "folio_charges (snd (reach s)) = folio_charges s"
  "payments (snd (reach s)) = payments s"
  "guest_documents (snd (reach s)) = guest_documents s"
  by (simp_all add: reach_def split: list.split)

lemma reach_reliable [simp]: "link s = [] \<Longrightarrow> reach s = (True, s)"
  by (simp add: reach_def)

lemma payments_frame [simp]:
  "payments (snd (insert_folio_charge c s)) = payments s"
  "payments (snd (insert_guest_document d s)) = payments s"
  "payments (snd (select_folio_charges bid s)) = payments s"
  "payments (snd (select_payments bid s)) = payments s"
  "payments (snd (select_booking_guest_id bid s)) = payments s"
  "payments (update_bookings bid f s) = payments s"
  "payments (update_room_status rid st s) = payments s"
  by (simp_all add: insert_folio_charge_def insert_guest_document_def
      select_folio_charges_def select_payments_def select_booking_guest_id_def
      update_bookings_def update_room_status_def split_def Let_def split: option.split)

lemma payments_archive [simp]:
  "payments (snd (archiveInvoice b g cs ps t s)) = payments s"
  "payments (snd (archiveGRC b g t s)) = payments s"
  by (simp_all add: archiveInvoice_def archiveGRC_def split_def Let_def)

lemma payments_insert_payment:
  "\<exists>added. payments (snd (insert_payment p s)) = payments s @ added"
  by (simp add: insert_payment_def split_def Let_def split: option.split)

lemma documents_frame [simp]:
  "guest_documents (snd (insert_payment p s)) = guest_documents s"
  "guest_documents (snd (select_folio_charges bid s)) = guest_documents s"
  "guest_documents (snd (select_payments bid s)) = guest_documents s"
  "guest_documents (snd (select_booking_guest_id bid s)) = guest_documents s"
  "guest_documents (update_bookings bid f s) = guest_documents s"
  "guest_documents (update_room_status rid st s) = guest_documents s"
  by (simp_all add: insert_payment_def select_folio_charges_def select_payments_def
      select_booking_guest_id_def update_bookings_def update_room_status_def
      split_def Let_def split: option.split)

lemma documents_insert_final_payment [simp]:
  "guest_documents (insert_final_payment b cpd now s) = guest_documents s"
  by (simp add: insert_final_payment_def split: option.split)

lemma folio_charges_frame [simp]:
  "folio_charges (snd (insert_payment p s)) = folio_charges s"
  "folio_charges (snd (insert_booking bk s)) = folio_charges s"
  "folio_charges (snd (select_guest_by_mobile m s)) = folio_charges s"
  "folio_charges (snd (insert_guest g s)) = folio_charges s"
  "folio_charges (update_room_status rid st s) = folio_charges s"
  "folio_charges (update_reservation_status res rst s) = folio_charges s"
  by (simp_all add: insert_payment_def insert_booking_def select_guest_by_mobile_def
      insert_guest_def update_room_status_def update_reservation_status_def
      split_def Let_def split: option.split)

lemma bookings_rooms_guest_frame [simp]:
  "bookings (snd (select_guest_by_mobile m s)) = bookings s"
  "rooms (snd (select_guest_by_mobile m s)) = rooms s"
  "bookings (snd (insert_guest g s)) = bookings s"
  "rooms (snd (insert_guest g s)) = rooms s"
  by (simp_all add: select_guest_by_mobile_def insert_guest_def split_def Let_def)

section \<open>Checkout\<close>

text \<open>
  C1. Claimed: a checkout never marks the booking checked out or the room dirty unless the
  invoice and the registration card were stored first; after a failed archival the booking
  stays checked in. The routine drops the answers of both archive calls. On the store
  whose backend fails the two document inserts, the checkout of the example stay ends with
  no archived document, the booking checked out and room 101 vacant and dirty.
\<close>

theorem confirmCheckout_closes_unarchived:
  "guest_documents (ex_checkout archive_down) = []
   \<and> map booking_state (bookings (ex_checkout archive_down)) = [checked_out]
   \<and> map room_state (rooms (ex_checkout archive_down)) = [vacant_dirty]"
  by code_simp

lemma payments_confirmCheckout:
  "payments (confirmCheckout (Some b) cpd t u now s) =
     payments (insert_final_payment b cpd now s)"
  by (simp add: confirmCheckout_def split_def Let_def split: option.split)

lemma payments_insert_final_payment:
  "\<exists>added. payments (insert_final_payment b cpd now s) = payments s @ added"
proof (cases cpd)
  case None
  then show ?thesis by (simp add: insert_final_payment_def)
next
  case (Some am)
  obtain amt mode where am: "am = (amt, mode)" by (cases am)
  from payments_insert_payment
    [of "\<lparr>pay_booking_id = bv_id b, payment_date = now, payment_amount = amt,
          payment_mode = mode\<rparr>" s]
  show ?thesis using Some am by (auto simp add: insert_final_payment_def)
qed

text \<open>
  C8. No run of the checkout removes or changes a recorded payment: whatever the booking,
  the payment form, the rates and the answers of the backend, the payments afterwards are
  the payments before followed by the rows added. On the store whose backend fails both
  document inserts, the final payment of 1000 is the one row added.
\<close>

theorem checkout_keeps_payments:
  "(\<exists>added. payments (confirmCheckout sb cpd t u now s) = payments s @ added)
   \<and> guest_documents (ex_checkout archive_down) = []
   \<and> payments (ex_checkout archive_down) =
       payments archive_down @
       [\<lparr>pay_booking_id = bv_id ex_booking, payment_date = 187200000,
         payment_amount = 1000, payment_mode = ''cash''\<rparr>]"
proof (intro conjI)
  show "\<exists>added. payments (confirmCheckout sb cpd t u now s) = payments s @ added"
  proof (cases sb)
    case None
    then show ?thesis by (simp add: confirmCheckout_def)
  next
    case (Some b)
    then show ?thesis
      by (simp add: payments_confirmCheckout payments_insert_final_payment)
  qed
next
  show "guest_documents (ex_checkout archive_down) = []" by code_simp
next
  show "payments (ex_checkout archive_down) =
       payments archive_down @
       [\<lparr>pay_booking_id = bv_id ex_booking, payment_date = 187200000,
         payment_amount = 1000, payment_mode = ''cash''\<rparr>]"
    by code_simp
qed

lemma recomputed_invoice_totals:
  "recomputed_totals
     \<lparr>dd_guest_id = g, dd_full_name = n, dd_mobile = m, dd_room_number = rn,
      dd_room_type = rt, dd_base_rate = br, dd_check_in_date = ci, dd_check_out_date = co,
      dd_number_of_guests = ng, dd_charges = cs, dd_payments = ps, dd_taxes = t,
      dd_totals = invoice_totals cs ps t\<rparr> = invoice_totals cs ps t"
  by (simp add: recomputed_totals_def folio_is_invoice)

lemma recomputed_grc_totals:
  "recomputed_totals
     \<lparr>dd_guest_id = g, dd_full_name = n, dd_mobile = m, dd_room_number = rn,
      dd_room_type = rt, dd_base_rate = br, dd_check_in_date = ci, dd_check_out_date = co,
      dd_number_of_guests = ng, dd_charges = [], dd_payments = [], dd_taxes = t,
      dd_totals = z\<rparr> =
     \<lparr>subtotal = 0, cgst_amount = 0, sgst_amount = 0, grand_total = 0, total_paid = 0,
      balance = 0\<rparr>"
  by (simp add: recomputed_totals_def calculateFolioTotal_def Let_def fadd_def fsub_def
      fmul_def fdiv_def)

lemma documents_archiveInvoice:
  "d \<in> set (guest_documents (snd (archiveInvoice b g cs ps t s))) \<Longrightarrow>
   d \<in> set (guest_documents s) \<or> roundtrip_ok d"
  by (auto simp add: archiveInvoice_def insert_guest_document_def split_def Let_def
      roundtrip_ok_def recomputed_invoice_totals split: if_splits)

lemma documents_archiveGRC:
  "d \<in> set (guest_documents (snd (archiveGRC b g t s))) \<Longrightarrow>
   d \<in> set (guest_documents s) \<or> roundtrip_ok d"
  by (auto simp add: archiveGRC_def insert_guest_document_def split_def Let_def
      roundtrip_ok_def recomputed_grc_totals split: if_splits)

text \<open>
  C5. Every document a checkout adds to the archive, invoice or registration card,
  reproduces its stored totals (subtotal, both taxes, grand total, total paid, balance)
  when the folio formula is recomputed over the charges, payments and rates of its own
  payload.
\<close>

theorem archived_totals_roundtrip:
  "\<forall>d \<in> set (guest_documents (confirmCheckout sb cpd t u now s)).
     d \<in> set (guest_documents s) \<or> roundtrip_ok d"
proof (cases sb)
  case None
  then show ?thesis by (simp add: confirmCheckout_def)
next
  case (Some b)
  let ?s3 = "snd (select_payments (bv_id b)
               (snd (select_folio_charges (bv_id b) (insert_final_payment b cpd now s))))"
  let ?s4 = "snd (select_booking_guest_id (bv_id b) ?s3)"
  have s4: "guest_documents ?s4 = guest_documents s" by simp
  show ?thesis
  proof (cases "fst (select_booking_guest_id (bv_id b) ?s3)")
    case None
    with Some s4 show ?thesis
      by (simp add: confirmCheckout_def split_def Let_def)
  next
    case (Some g)
    show ?thesis
    proof
      fix d
      assume "d \<in> set (guest_documents (confirmCheckout sb cpd t u now s))"
      with \<open>sb = Some b\<close> Some obtain cs ps where
        "d \<in> set (guest_documents
                 (snd (archiveGRC b g t (snd (archiveInvoice b g cs ps t ?s4)))))"
        by (simp add: confirmCheckout_def split_def Let_def)
      then have "d \<in> set (guest_documents (snd (archiveInvoice b g cs ps t ?s4)))
                 \<or> roundtrip_ok d"
        by (rule documents_archiveGRC)
      then have "d \<in> set (guest_documents ?s4) \<or> roundtrip_ok d"
        using documents_archiveInvoice by blast
      with s4 show "d \<in> set (guest_documents s) \<or> roundtrip_ok d" by simp
    qed
  qed
qed

theorem archived_totals_roundtrip_witness:
  "guest_documents ex_store = []
   \<and> map document_type (guest_documents (ex_checkout ex_store)) = [''invoice'', ''grc'']
   \<and> roundtrip_ok (guest_documents (ex_checkout ex_store) ! 0)
   \<and> roundtrip_ok (guest_documents (ex_checkout ex_store) ! 1)"
proof -
  have e: "guest_documents ex_store = []" by (simp add: ex_store_def)
  have t: "map document_type (guest_documents (ex_checkout ex_store)) = [''invoice'', ''grc'']"
    by code_simp
  have "length (map document_type (guest_documents (ex_checkout ex_store))) = 2"
    by (simp only: t) simp
  then have len: "length (guest_documents (ex_checkout ex_store)) = 2" by simp
  have m0: "guest_documents (ex_checkout ex_store) ! 0 \<in> set (guest_documents (ex_checkout ex_store))"
    using len by (simp del: nth_mem add: nth_mem)
  have m1: "guest_documents (ex_checkout ex_store) ! 1 \<in> set (guest_documents (ex_checkout ex_store))"
    using len by (simp del: nth_mem add: nth_mem)
  have "\<forall>d \<in> set (guest_documents (ex_checkout ex_store)).
          d \<in> set (guest_documents ex_store) \<or> roundtrip_ok d"
    unfolding ex_checkout_def by (rule archived_totals_roundtrip)
  with m0 m1 e t show ?thesis by auto
qed

lemma archiveInvoice_reliable:
  "link s = [] \<Longrightarrow>
   fst (archiveInvoice b g cs ps t s) = Archived (documentNumber invoice_prefix (bv_id b))
   \<and> link (snd (archiveInvoice b g cs ps t s)) = []
   \<and> map document_number (guest_documents (snd (archiveInvoice b g cs ps t s))) =
       map document_number (guest_documents s) @ [documentNumber invoice_prefix (bv_id b)]"
  by (simp add: archiveInvoice_def insert_guest_document_def valid_document_type_def Let_def)

lemma archiveGRC_reliable:
  "link s = [] \<Longrightarrow>
   fst (archiveGRC b g t s) = Archived (documentNumber grc_prefix (bv_id b))
   \<and> link (snd (archiveGRC b g t s)) = []
   \<and> map document_number (guest_documents (snd (archiveGRC b g t s))) =
       map document_number (guest_documents s) @ [documentNumber grc_prefix (bv_id b)]"
  by (simp add: archiveGRC_def insert_guest_document_def valid_document_type_def Let_def)

text \<open>
  C10. The document number is the prefix, a hyphen and the first eight characters of the
  booking identifier in upper case: it depends on nothing else. With the backend serving,
  two archival runs for one booking, whatever the charges, payments and rates of each,
  both answer that number and leave two rows carrying it, for the invoice and for the
  registration card alike; the store has no constraint to refuse the second. Checking the
  example stay out twice leaves four documents, numbered \<open>INV-3F2A9C1E\<close> and
  \<open>GRC-3F2A9C1E\<close> twice over.
\<close>

theorem document_number_repeats:
  "fst (archiveInvoice b g cs ps t (s\<lparr>link := []\<rparr>)) =
     Archived (invoice_prefix @ ''-'' @ map toUpperCase (take 8 (bv_id b)))
   \<and> fst (archiveInvoice b g' cs' ps' t' (snd (archiveInvoice b g cs ps t (s\<lparr>link := []\<rparr>)))) =
     Archived (invoice_prefix @ ''-'' @ map toUpperCase (take 8 (bv_id b)))
   \<and> map document_number
       (guest_documents
          (snd (archiveInvoice b g' cs' ps' t'
             (snd (archiveInvoice b g cs ps t (s\<lparr>link := []\<rparr>)))))) =
     map document_number (guest_documents s) @
       [documentNumber invoice_prefix (bv_id b), documentNumber invoice_prefix (bv_id b)]
   \<and> map document_number
       (guest_documents
          (snd (archiveGRC b g' t' (snd (archiveGRC b g t (s\<lparr>link := []\<rparr>)))))) =
     map document_number (guest_documents s) @
       [documentNumber grc_prefix (bv_id b), documentNumber grc_prefix (bv_id b)]
   \<and> map document_number (guest_documents (ex_checkout (ex_checkout ex_store))) =
       [''INV-3F2A9C1E'', ''GRC-3F2A9C1E'', ''INV-3F2A9C1E'', ''GRC-3F2A9C1E'']"
proof (intro conjI)
  have l: "link (s\<lparr>link := []\<rparr>) = []" by simp
  note a1 = archiveInvoice_reliable [OF l, of b g cs ps t]
  from a1 have l1: "link (snd (archiveInvoice b g cs ps t (s\<lparr>link := []\<rparr>))) = []" by simp
  note a2 = archiveInvoice_reliable [OF l1, of b g' cs' ps' t']
  note g1 = archiveGRC_reliable [OF l, of b g t]
  from g1 have l2: "link (snd (archiveGRC b g t (s\<lparr>link := []\<rparr>))) = []" by simp
  note g2 = archiveGRC_reliable [OF l2, of b g' t']
  show "fst (archiveInvoice b g cs ps t (s\<lparr>link := []\<rparr>)) =
     Archived (invoice_prefix @ ''-'' @ map toUpperCase (take 8 (bv_id b)))"
    using a1 by (simp add: documentNumber_def)
  show "fst (archiveInvoice b g' cs' ps' t' (snd (archiveInvoice b g cs ps t (s\<lparr>link := []\<rparr>)))) =
     Archived (invoice_prefix @ ''-'' @ map toUpperCase (take 8 (bv_id b)))"
    using a2 by (simp add: documentNumber_def)
  show "map document_number
       (guest_documents
          (snd (archiveInvoice b g' cs' ps' t'
             (snd (archiveInvoice b g cs ps t (s\<lparr>link := []\<rparr>)))))) =
     map document_number (guest_documents s) @
       [documentNumber invoice_prefix (bv_id b), documentNumber invoice_prefix (bv_id b)]"
    using a1 a2 by simp
  show "map document_number
       (guest_documents
          (snd (archiveGRC b g' t' (snd (archiveGRC b g t (s\<lparr>link := []\<rparr>)))))) =
     map document_number (guest_documents s) @
       [documentNumber grc_prefix (bv_id b), documentNumber grc_prefix (bv_id b)]"
    using g1 g2 by simp
  show "map document_number (guest_documents (ex_checkout (ex_checkout ex_store))) =
       [''INV-3F2A9C1E'', ''GRC-3F2A9C1E'', ''INV-3F2A9C1E'', ''GRC-3F2A9C1E'']"
    by code_simp
qed

section \<open>Room rent: night audit, manual charge, stay extension\<close>












text \<open>
  C4. Claimed: every path that posts room rent first looks for a charge of the same
  booking, date and type, so no booking holds two room-rent charges for one date. Only the
  night audit looks. After the audit of day 2 has posted the example stay's room rent, a
  manual room-rent charge dated day 2 is stored beside it, and so is the first night of an
  extension from day 2 to day 3: either way the booking holds two room-rent charges for
  day 2.
\<close>

theorem room_rent_posted_twice:
  "room_rent_count (snd (runNightAudit [ex_booking] 2 ex_store)) (bv_id ex_booking) 2 = 1
   \<and> room_rent_count
       (handleAddCharge (Some ex_booking) 2 1500 ''room_rent''
          (snd (runNightAudit [ex_booking] 2 ex_store)))
       (bv_id ex_booking) 2 = 2
   \<and> room_rent_count
       (handleExtendStay fixed_offset (Some ex_booking) 3
          (snd (runNightAudit [ex_booking] 2 ex_store)))
       (bv_id ex_booking) 2 = 2"
  by code_simp

section \<open>Check-in\<close>

lemma loadData_rooms:
  "x \<in> set (fst (loadData s)) \<Longrightarrow> x \<in> set (rooms s) \<and> room_state x = vacant_clean"
  by (simp add: loadData_def split_def Let_def split: if_splits)

lemma not_vacant_not_offered:
  assumes "distinct (map room_id (rooms s))" and "r \<in> set (rooms s)"
    and "room_state r \<noteq> vacant_clean"
  shows "find (\<lambda>x. room_id x = room_id r) (fst (loadData s)) = None"
proof -
  have "\<not> (\<exists>x. x \<in> set (fst (loadData s)) \<and> room_id x = room_id r)"
  proof
    assume "\<exists>x. x \<in> set (fst (loadData s)) \<and> room_id x = room_id r"
    then obtain x where x: "x \<in> set (fst (loadData s))" and id: "room_id x = room_id r"
      by blast
    from x have xs: "x \<in> set (rooms s)" and st: "room_state x = vacant_clean"
      using loadData_rooms by blast+
    from assms(1) have "inj_on room_id (set (rooms s))" by (simp add: distinct_map)
    with xs assms(2) id have "x = r" by (auto dest: inj_onD)
    with st assms(3) show False by simp
  qed
  then show ?thesis by (simp add: find_None_iff)
qed

lemma processCheckIn_not_offered:
  "find (\<lambda>x. room_id x = selectedRoom) avail = None \<Longrightarrow>
   fst (processCheckIn sel selectedRoom avail now newId s) \<noteq> Succeeded \<and>
   snd (processCheckIn sel selectedRoom avail now newId s) = s"
  by (simp add: processCheckIn_def split: option.split)

lemma processWalkIn_not_offered:
  "find (\<lambda>x. room_id x = roomId w) avail = None \<Longrightarrow>
   fst (processWalkIn cal w avail now newGuestId newId s) \<noteq> Succeeded \<and>
   bookings (snd (processWalkIn cal w avail now newGuestId newId s)) = bookings s \<and>
   rooms (snd (processWalkIn cal w avail now newGuestId newId s)) = rooms s"
  by (simp add: processWalkIn_def split_def Let_def split: option.split)

text \<open>
  C6, as claimed: no check-in can create a booking for a room whose status is occupied.
  The routines test the room against the list the desk loaded, not against the store. In
  the run of two desks, room 101 is occupied after the first check-in (room 102 is still
  free), and the second check-in into room 101 succeeds: the store then holds two
  checked-in bookings for it.
\<close>

theorem stale_list_admits_occupied_room:
  "map room_state (rooms (snd first_check_in)) = [occupied, vacant_clean]
   \<and> fst second_check_in = Succeeded
   \<and> map booking_room_id (bookings (snd second_check_in)) = [''room-101'', ''room-101'']
   \<and> map booking_state (bookings (snd second_check_in)) = [checked_in, checked_in]"
  by code_simp

text \<open>
  C6, amended. The list \<^verbatim>\<open>loadData\<close> offers holds only rooms that are vacant and clean in
  the store it reads. For a room that is occupied in that store (room identifiers being
  unique), a reservation check-in or a walk-in that selects it against that list does not
  succeed and creates no booking, on whatever store it then runs; the reservation check-in
  leaves the store untouched.
\<close>

theorem occupied_room_not_offered:
  assumes "distinct (map room_id (rooms s))" and "r \<in> set (rooms s)"
    and "room_state r = occupied" and "roomId w = room_id r"
  shows "(\<forall>x \<in> set (fst (loadData s)). room_state x = vacant_clean)
         \<and> fst (processCheckIn sel (room_id r) (fst (loadData s)) now newId s') \<noteq> Succeeded
         \<and> snd (processCheckIn sel (room_id r) (fst (loadData s)) now newId s') = s'
         \<and> fst (processWalkIn cal w (fst (loadData s)) now newGuestId newId s') \<noteq> Succeeded
         \<and> bookings (snd (processWalkIn cal w (fst (loadData s)) now newGuestId newId s')) =
             bookings s'"
proof -
  from assms(3) have "room_state r \<noteq> vacant_clean" by simp
  with assms(1,2) have none: "find (\<lambda>x. room_id x = room_id r) (fst (loadData s)) = None"
    by (rule not_vacant_not_offered)
  from none assms(4) have nonew: "find (\<lambda>x. room_id x = roomId w) (fst (loadData s)) = None"
    by simp
  show ?thesis
    using processCheckIn_not_offered [OF none, of sel now newId s']
      processWalkIn_not_offered [OF nonew, of cal now newGuestId newId s']
      loadData_rooms [of _ s]
    by blast
qed

theorem occupied_room_not_offered_witness:
  "distinct (map room_id (rooms desk_after))
   \<and> hd (rooms desk_after) \<in> set (rooms desk_after)
   \<and> room_state (hd (rooms desk_after)) = occupied
   \<and> room_id (hd (rooms desk_after)) = ''room-101''
   \<and> roomId ex_walk_in = ''room-101''
   \<and> map room_number fresh_rooms = [''102'']
   \<and> room_state (hd fresh_rooms) = vacant_clean
   \<and> fst (processCheckIn (Some res_2) ''room-101'' fresh_rooms ex_now ''booking-2''
            desk_after) = Failed
   \<and> snd (processCheckIn (Some res_2) ''room-101'' fresh_rooms ex_now ''booking-2''
            desk_after) = desk_after
   \<and> fst (processWalkIn fixed_offset ex_walk_in fresh_rooms ex_now ''guest-3''
            ''booking-2''
            desk_after) \<noteq> Succeeded
   \<and> bookings (snd (processWalkIn fixed_offset ex_walk_in fresh_rooms ex_now ''guest-3''
            ''booking-2''
            desk_after)) = bookings desk_after"
proof -
  have a: "distinct (map room_id (rooms desk_after))" by code_simp
  have b: "hd (rooms desk_after) \<in> set (rooms desk_after)" by code_simp
  have c: "room_state (hd (rooms desk_after)) = occupied" by code_simp
  have i: "room_id (hd (rooms desk_after)) = ''room-101''" by code_simp
  have w: "roomId ex_walk_in = ''room-101''" by (simp add: ex_walk_in_def)
  from w i have d: "roomId ex_walk_in = room_id (hd (rooms desk_after))" by simp
  have n: "map room_number fresh_rooms = [''102'']" by code_simp
  have m: "hd fresh_rooms \<in> set (fst (loadData desk_after))" by code_simp
  have e: "fst (processCheckIn (Some res_2) ''room-101'' fresh_rooms ex_now ''booking-2''
            desk_after) = Failed"
    by code_simp
  note t = occupied_room_not_offered
    [OF a b c d, of "Some res_2" ex_now "''booking-2''" desk_after fixed_offset
      "''guest-3''"]
  from t m have v: "room_state (hd fresh_rooms) = vacant_clean" by blast
  from t have r: "snd (processCheckIn (Some res_2) ''room-101'' fresh_rooms ex_now
      ''booking-2'' desk_after) = desk_after
    \<and> fst (processWalkIn fixed_offset ex_walk_in fresh_rooms ex_now ''guest-3''
            ''booking-2''
            desk_after) \<noteq> Succeeded
    \<and> bookings (snd (processWalkIn fixed_offset ex_walk_in fresh_rooms ex_now ''guest-3''
            ''booking-2''
            desk_after)) = bookings desk_after"
    unfolding i fresh_rooms_def [symmetric] by blast
  from a b c i w n v e r show ?thesis by blast
qed

lemma room_not_valid: "''room'' \<notin> set valid_charge_type"
  by (simp add: valid_charge_type_def)

lemma insert_folio_charge_rejected:
  "charge_type c \<notin> set valid_charge_type \<Longrightarrow>
   folio_charges (snd (insert_folio_charge c s)) = folio_charges s"
  by (simp add: insert_folio_charge_def split_def Let_def)

text \<open>
  C9. Claimed: every check-in, of a reservation or of a walk-in, inserts one folio charge
  for the whole stay, of type \<open>room\<close> and amount the base rate times the nights. The
  check \<open>valid_charge_type\<close> of the table does not admit \<open>room\<close>, and neither routine
  reads the answer of that insert: no check-in changes the folio charges. On the arrivals
  store the check-in of reservation 1 and the walk-in both succeed, each creating its
  booking, and the folio stays empty.
\<close>

theorem check_in_stores_no_charge:
  "folio_charges (snd (processCheckIn sel selectedRoom avail now newId s)) = folio_charges s
   \<and> folio_charges (snd (processWalkIn cal w avail now newGuestId newId s)) = folio_charges s
   \<and> fst first_check_in = Succeeded
   \<and> map booking_id (bookings (snd first_check_in)) = [''booking-1'']
   \<and> folio_charges (snd first_check_in) = []
   \<and> fst (processWalkIn fixed_offset ex_walk_in offered_rooms ex_now ''guest-3'' ''booking-3''
            arrivals)
       = Succeeded
   \<and> folio_charges
       (snd (processWalkIn fixed_offset ex_walk_in offered_rooms ex_now ''guest-3'' ''booking-3''
            arrivals))
       = []"
proof (intro conjI)
  show "folio_charges (snd (processCheckIn sel selectedRoom avail now newId s)) =
          folio_charges s"
    by (simp add: processCheckIn_def split_def Let_def insert_folio_charge_rejected
        room_not_valid split: option.split)
  show "folio_charges (snd (processWalkIn cal w avail now newGuestId newId s)) =
          folio_charges s"
    by (simp add: processWalkIn_def split_def Let_def insert_folio_charge_rejected
        room_not_valid split: option.split)
  show "fst first_check_in = Succeeded" by code_simp
  show "map booking_id (bookings (snd first_check_in)) = [''booking-1'']" by code_simp
  show "folio_charges (snd first_check_in) = []" by code_simp
  show "fst (processWalkIn fixed_offset ex_walk_in offered_rooms ex_now ''guest-3'' ''booking-3''
            arrivals)
       = Succeeded" by code_simp
  show "folio_charges
       (snd (processWalkIn fixed_offset ex_walk_in offered_rooms ex_now ''guest-3'' ''booking-3''
            arrivals))
       = []" by code_simp
qed

end
